theory Spec2Isabelle
  imports Main "HOL-Library.Word"
begin

unbundle bit_operations_syntax

section \<open>Kernel catalogue of the Turing generation (cutlass\_conv\_sm75.cu)\<close>

text \<open>
  \<^verbatim>\<open>getCutlassConvInstances<75>()\<close> returns a vector built from two instantiations of
  the class template \<^verbatim>\<open>CutlassConvInstance<T, SmArch, ThreadblockShape, WarpShape, numStages>\<close>.
  The template arguments are data of the source file; they are kept as a record.
\<close>

datatype ElemType = half | float

datatype SmArch = Sm70 | Sm75 | Sm80

record GemmShape =
  kM :: nat
  kN :: nat
  kK :: nat

text \<open>
  Modelled from the spec: \<^verbatim>\<open>CutlassConvInstance<...>::get()\<close> and the type
  \<^verbatim>\<open>CutlassConvFactory\<close> are declared in cutlass\_conv.h, which is not among the sources.
  The spec calls the entry a kernel variant "declaring a tile-shape envelope and a minimum
  architecture requirement", with a precision; the descriptor therefore carries exactly the
  template arguments the source file passes.
\<close>

record CutlassConvFactory =
  elemType :: ElemType
  smArch :: SmArch
  threadblockShape :: GemmShape
  warpShape :: GemmShape
  numStages :: nat

definition CutlassConvInstance_get ::
  "ElemType \<Rightarrow> SmArch \<Rightarrow> nat \<times> nat \<times> nat \<Rightarrow> nat \<times> nat \<times> nat \<Rightarrow> nat \<Rightarrow> CutlassConvFactory" where
  "CutlassConvInstance_get T arch tb wp stages =
     (case tb of (tm, tn, tk) \<Rightarrow> case wp of (wm, wn, wk) \<Rightarrow>
        \<lparr>elemType = T, smArch = arch,
         threadblockShape = \<lparr>kM = tm, kN = tn, kK = tk\<rparr>,
         warpShape = \<lparr>kM = wm, kN = wn, kK = wk\<rparr>,
         numStages = stages\<rparr>)"

text \<open>
  The function takes no argument and reads no global; the model passes the process state
  \<open>\<sigma>\<close> (of any type) so that "two calls" can be told apart.
\<close>

definition getCutlassConvInstances_75 :: "'s \<Rightarrow> CutlassConvFactory list" where
  "getCutlassConvInstances_75 \<sigma> =
     [CutlassConvInstance_get half Sm75 (256, 32, 32) (64, 32, 32) 2,
      CutlassConvInstance_get half Sm75 (256, 64, 32) (64, 64, 32) 2]"

section \<open>Image input and output (image\_io.cpp)\<close>

subsection \<open>Errors\<close>

text \<open>
  Every \<^verbatim>\<open>throw\<close> of the source is a value: \<open>runtime_error\<close> and \<open>invalid_argument\<close>
  carry the message of the C++ exception of that name. \<open>alloc_error\<close> is the exception of
  the standard library when a buffer of an impossible size is requested.
  \<open>undefined_behaviour\<close> marks an execution that leaves the language's defined behaviour
  (here: an element access outside the buffer, a float-to-int conversion out of range);
  it is not an exception and nothing catches it.
\<close>

datatype error =
    runtime_error string
  | invalid_argument string
  | alloc_error
  | undefined_behaviour

definition bind_err :: "error + 'a \<Rightarrow> ('a \<Rightarrow> error + 'b) \<Rightarrow> error + 'b" where
  "bind_err r f = (case r of Inl e \<Rightarrow> Inl e | Inr x \<Rightarrow> f x)"

subsection \<open>32-bit floats as bit patterns\<close>

text \<open>
  A \<^verbatim>\<open>float\<close> is its IEEE 754 binary32 bit pattern. Sign, comparison, \<^verbatim>\<open>fabs\<close>,
  multiplication and the conversion to \<^verbatim>\<open>int\<close> are defined on the bit pattern;
  addition, subtraction, division, \<^verbatim>\<open>std::pow\<close> and the text-to-float conversion of the
  stream library are parameters (see \<open>extern\<close> below).
\<close>

type_synonym f32 = "32 word"

definition INT_MAX :: int where "INT_MAX = 2147483647"
definition INT_MIN :: int where "INT_MIN = - 2147483648"

definition f32_sign :: "f32 \<Rightarrow> bool" where
  "f32_sign x = bit x 31"

definition f32_exponent :: "f32 \<Rightarrow> nat" where
  "f32_exponent x = unat (take_bit 8 (drop_bit 23 x))"

definition f32_fraction :: "f32 \<Rightarrow> nat" where
  "f32_fraction x = unat (take_bit 23 x)"

definition f32_pack :: "bool \<Rightarrow> nat \<Rightarrow> nat \<Rightarrow> f32" where
  "f32_pack s e f = push_bit 31 (of_bool s) OR push_bit 23 (word_of_nat e) OR word_of_nat f"

definition f32_isnan :: "f32 \<Rightarrow> bool" where
  "f32_isnan x = (f32_exponent x = 255 \<and> f32_fraction x \<noteq> 0)"

definition f32_isinf :: "f32 \<Rightarrow> bool" where
  "f32_isinf x = (f32_exponent x = 255 \<and> f32_fraction x = 0)"

definition f32_iszero :: "f32 \<Rightarrow> bool" where
  "f32_iszero x = (f32_exponent x = 0 \<and> f32_fraction x = 0)"

text \<open>
  A finite float is \<open>(-1)^sign * significand * 2^(exp2 - 150)\<close>: subnormals have no hidden
  bit and the exponent of the smallest normal binade.
\<close>

definition f32_significand :: "f32 \<Rightarrow> nat" where
  "f32_significand x = (if f32_exponent x = 0 then f32_fraction x else 2 ^ 23 + f32_fraction x)"

definition f32_exp2 :: "f32 \<Rightarrow> int" where
  "f32_exp2 x = (if f32_exponent x = 0 then 1 else int (f32_exponent x))"

definition f32_abs :: "f32 \<Rightarrow> f32" where
  "f32_abs x = x AND 0x7FFFFFFF"

text \<open>The order of non-NaN floats is that of their sign-magnitude integers; a NaN compares false.\<close>

definition f32_key :: "f32 \<Rightarrow> int" where
  "f32_key x = (if f32_sign x then - int (unat (f32_abs x)) else int (unat (f32_abs x)))"

definition f32_le :: "f32 \<Rightarrow> f32 \<Rightarrow> bool" where
  "f32_le x y = (\<not> f32_isnan x \<and> \<not> f32_isnan y \<and> f32_key x \<le> f32_key y)"

definition f32_ge :: "f32 \<Rightarrow> f32 \<Rightarrow> bool" where
  "f32_ge x y = f32_le y x"

text \<open>A signalling NaN becomes quiet when an operation delivers it: the top fraction bit is set.\<close>

definition f32_quiet :: "f32 \<Rightarrow> f32" where
  "f32_quiet x = x OR 0x00400000"


definition f32_default_nan :: f32 where
  "f32_default_nan = 0xFFC00000"

fun bitlen :: "nat \<Rightarrow> nat" where
  "bitlen n = (if n = 0 then 0 else Suc (bitlen (n div 2)))"

text \<open>\<open>m / 2^sh\<close> rounded to the nearest integer, ties to even.\<close>

definition round_shift :: "nat \<Rightarrow> nat \<Rightarrow> nat" where
  "round_shift m sh =
     (let q = m div 2 ^ sh; r = m mod 2 ^ sh
      in if 2 * r > 2 ^ sh \<or> (2 * r = 2 ^ sh \<and> odd q) then q + 1 else q)"

text \<open>
  \<open>f32_round s m e\<close> is the float nearest to \<open>(-1)^s * m * 2^(e - 150)\<close> (ties to even):
  the significand is brought to 24 bits, or to the subnormal exponent when the value is
  too small; a carry out of the rounding renormalises; too large a value is an infinity.
\<close>

definition f32_round :: "bool \<Rightarrow> nat \<Rightarrow> int \<Rightarrow> f32" where
  "f32_round s m e =
     (if m = 0 then f32_pack s 0 0
      else
        let sh = max (int (bitlen m) - 24) (1 - e);
            e1 = e + sh;
            m1 = (if sh \<le> 0 then m * 2 ^ nat (- sh) else round_shift m (nat sh));
            e2 = (if m1 = 2 ^ 24 then e1 + 1 else e1);
            m2 = (if m1 = 2 ^ 24 then 2 ^ 23 else m1)
        in if m2 < 2 ^ 23 then f32_pack s 0 m2
           else if 255 \<le> e2 then f32_pack s 255 0
           else f32_pack s (nat e2) (m2 - 2 ^ 23))"

text \<open>
  \<^verbatim>\<open>x * y\<close>: the IEEE 754 product, rounded to nearest, ties to even. A NaN operand is
  delivered quieted (the first one when both are NaNs), infinity times zero is the default
  NaN, and the sign of every other product is the exclusive or of the signs.
\<close>

definition f32_mul :: "f32 \<Rightarrow> f32 \<Rightarrow> f32" where
  "f32_mul x y =
     (if f32_isnan x then f32_quiet x
      else if f32_isnan y then f32_quiet y
      else if (f32_isinf x \<and> f32_iszero y) \<or> (f32_iszero x \<and> f32_isinf y) then f32_default_nan
      else if f32_isinf x \<or> f32_isinf y then f32_pack (f32_sign x \<noteq> f32_sign y) 255 0
      else f32_round (f32_sign x \<noteq> f32_sign y)
             (f32_significand x * f32_significand y) (f32_exp2 x + f32_exp2 y - 150))"

text \<open>
  \<^verbatim>\<open>int(x)\<close> truncates towards zero; the conversion is undefined when the truncated value
  is not an \<^verbatim>\<open>int\<close> (also for infinities and NaNs).
\<close>

definition f32_to_int :: "f32 \<Rightarrow> int option" where
  "f32_to_int x =
     (if f32_exponent x = 255 then None
      else
        let e = f32_exp2 x - 150;
            a = (if 0 \<le> e then int (f32_significand x) * 2 ^ nat e
                 else int (f32_significand x) div 2 ^ nat (- e));
            v = (if f32_sign x then - a else a)
        in if INT_MIN \<le> v \<and> v \<le> INT_MAX then Some v else None)"

text \<open>A float in memory is four bytes, least significant first (the host is little-endian).\<close>

definition f32_of_bytes :: "string \<Rightarrow> f32" where
  "f32_of_bytes bs = word_of_nat (foldr (\<lambda>b n. of_char b + 256 * n) bs 0)"

definition bytes_of_f32 :: "f32 \<Rightarrow> string" where
  "bytes_of_f32 x = map (\<lambda>i. char_of (unat x div 256 ^ i)) [0..<4]"

subsection \<open>Image buffers\<close>

text \<open>
  Modelled from the spec: the class \<^verbatim>\<open>ImageBuffer\<close> is declared in image\_io.h, which is
  not among the sources. The spec gives an image as (width, height, channelCount, float32
  samples, row-major). The model holds exactly that: the constructor makes
  \<open>width * height * channels\<close> zero samples and fails for a count that is negative or not
  an \<^verbatim>\<open>int\<close>; \<^verbatim>\<open>image[i]\<close> is an unchecked element access, so an index outside the
  samples is undefined behaviour; copying a buffer copies its samples.
\<close>

record ImageBuffer =
  width :: int
  height :: int
  channels :: int
  data :: "f32 list"

definition ImageBuffer_new :: "int \<Rightarrow> int \<Rightarrow> int \<Rightarrow> error + ImageBuffer" where
  "ImageBuffer_new W H C =
     (if 0 \<le> W * H * C \<and> W * H * C \<le> INT_MAX
      then Inr \<lparr>width = W, height = H, channels = C, data = replicate (nat (W * H * C)) 0\<rparr>
      else Inl alloc_error)"

definition getDataSize :: "ImageBuffer \<Rightarrow> int" where
  "getDataSize img = int (length (data img))"

definition ImageBuffer_get :: "ImageBuffer \<Rightarrow> int \<Rightarrow> error + f32" where
  "ImageBuffer_get img i =
     (if 0 \<le> i \<and> i < getDataSize img then Inr (data img ! nat i)
      else Inl undefined_behaviour)"

definition ImageBuffer_set :: "ImageBuffer \<Rightarrow> int \<Rightarrow> f32 \<Rightarrow> error + ImageBuffer" where
  "ImageBuffer_set img i v =
     (if 0 \<le> i \<and> i < getDataSize img then Inr (img\<lparr>data := (data img)[nat i := v]\<rparr>)
      else Inl undefined_behaviour)"


subsection \<open>Files and streams\<close>

text \<open>
  The file system maps a path to the bytes of the file that can be opened for reading
  there, and says which paths can be opened for writing.
\<close>

record fsys =
  files :: "string \<Rightarrow> string option"
  writable :: "string \<Rightarrow> bool"

text \<open>
  An input stream is the bytes not yet read and the fail bit. Once the fail bit is set,
  every extraction is a no-op. (The end-of-file bit is not kept: an extraction that starts
  at the end of the input sets the fail bit, which is all the source tests.)
\<close>

record istream =
  buf :: string
  failbit :: bool

definition ifstream_open :: "fsys \<Rightarrow> string \<Rightarrow> istream" where
  "ifstream_open fs filename =
     (case files fs filename of
        None \<Rightarrow> \<lparr>buf = [], failbit = True\<rparr>
      | Some bytes \<Rightarrow> \<lparr>buf = bytes, failbit = False\<rparr>)"

definition isspace :: "char \<Rightarrow> bool" where
  "isspace c = (of_char c = (32::nat) \<or> ((9::nat) \<le> of_char c \<and> of_char c \<le> (13::nat)))"

definition isdigit :: "char \<Rightarrow> bool" where
  "isdigit c = ((48::nat) \<le> of_char c \<and> of_char c \<le> (57::nat))"

definition tolower :: "char \<Rightarrow> char" where
  "tolower c = (if (65::nat) \<le> of_char c \<and> of_char c \<le> (90::nat)
                then char_of (of_char c + (32::nat)) else c)"

text \<open>\<^verbatim>\<open>file >> id\<close> for a string: skip white space, take the characters up to the next white space.\<close>

definition istream_get_string :: "istream \<Rightarrow> string \<times> istream" where
  "istream_get_string s =
     (if failbit s then ([], s)
      else
        let b = dropWhile isspace (buf s);
            tok = takeWhile (\<lambda>c. \<not> isspace c) b;
            rest = dropWhile (\<lambda>c. \<not> isspace c) b
        in if tok = [] then ([], \<lparr>buf = rest, failbit = True\<rparr>)
           else (tok, \<lparr>buf = rest, failbit = False\<rparr>))"

definition digits_value :: "string \<Rightarrow> int" where
  "digits_value ds = foldl (\<lambda>a c. 10 * a + (int (of_char c) - 48)) 0 ds"

text \<open>
  \<^verbatim>\<open>file >> W\<close> for an \<^verbatim>\<open>int\<close>: skip white space, an optional sign, decimal digits.
  No digit, or a value that is not an \<^verbatim>\<open>int\<close>, sets the fail bit (the value stored is then
  0, or the nearest \<^verbatim>\<open>int\<close>).
\<close>

definition istream_get_int :: "istream \<Rightarrow> int \<times> istream" where
  "istream_get_int s =
     (if failbit s then (0, s)
      else
        let b = dropWhile isspace (buf s);
            neg = (b \<noteq> [] \<and> hd b = CHR ''-'');
            b1 = (if b \<noteq> [] \<and> (hd b = CHR ''-'' \<or> hd b = CHR ''+'') then tl b else b);
            ds = takeWhile isdigit b1;
            rest = dropWhile isdigit b1;
            v = (if neg then - digits_value ds else digits_value ds)
        in if ds = [] then (0, \<lparr>buf = rest, failbit = True\<rparr>)
           else if v < INT_MIN then (INT_MIN, \<lparr>buf = rest, failbit = True\<rparr>)
           else if INT_MAX < v then (INT_MAX, \<lparr>buf = rest, failbit = True\<rparr>)
           else (v, \<lparr>buf = rest, failbit = False\<rparr>))"

text \<open>\<^verbatim>\<open>file.get()\<close>: one character, or the fail bit at the end of the input.\<close>

definition istream_get :: "istream \<Rightarrow> istream" where
  "istream_get s =
     (if failbit s then s
      else case buf s of [] \<Rightarrow> s\<lparr>failbit := True\<rparr> | c # cs \<Rightarrow> s\<lparr>buf := cs\<rparr>)"

text \<open>
  \<^verbatim>\<open>file.read((char*)&x, sizeof(float))\<close>: four bytes make the float; with fewer left the
  fail bit is set and \<open>x\<close> holds no determined value (\<open>None\<close>).
\<close>

definition istream_read_f32 :: "istream \<Rightarrow> f32 option \<times> istream" where
  "istream_read_f32 s =
     (if failbit s then (None, s)
      else if length (buf s) < 4 then (None, \<lparr>buf = [], failbit = True\<rparr>)
      else (Some (f32_of_bytes (take 4 (buf s))), s\<lparr>buf := drop 4 (buf s)\<rparr>))"

text \<open>\<^verbatim>\<open>file << W\<close> for an \<^verbatim>\<open>int\<close>: the decimal digits, after a minus sign when negative.\<close>

fun show_nat :: "nat \<Rightarrow> string" where
  "show_nat n = (if n < 10 then [char_of (48 + n)] else show_nat (n div 10) @ [char_of (48 + n mod 10)])"

definition show_int :: "int \<Rightarrow> string" where
  "show_int i = (if i < 0 then CHR ''-'' # show_nat (nat (- i)) else show_nat (nat i))"

definition endl :: string where
  "endl = [CHR 0x0A]"

subsection \<open>What the program takes from libraries\<close>

text \<open>
  The parts of the C++ library, of the floating-point unit and of OpenImageIO that the
  source calls and that are no code of this repository are parameters:
  \<^item> \<open>num_get_float\<close> is \<^verbatim>\<open>operator>>\<close> for a \<^verbatim>\<open>float\<close> after the white space is
    skipped: the value and the input left, or \<open>None\<close> when no float can be read;
  \<^item> \<open>fadd\<close>, \<open>fsub\<close>, \<open>fdiv\<close> and \<open>powf\<close> are float addition, subtraction, division
    and \<^verbatim>\<open>std::pow\<close>;
  \<^item> \<open>OIDN_USE_OPENIMAGEIO\<close> is the build switch of that name;
  \<^item> \<open>ImageInput_open\<close> is \<^verbatim>\<open>OIIO::ImageInput::open\<close>: \<open>None\<close> for a null result, else
    the image spec and the samples that \<^verbatim>\<open>read_image\<close> stores, by index (\<open>None\<close> when
    it returns false);
  \<^item> \<open>ImageOutput_create\<close>, \<open>ImageOutput_open\<close> and \<open>ImageOutput_write_image\<close> are the
    calls of \<^verbatim>\<open>OIIO::ImageOutput\<close>, the last two with the file system they leave
    (\<open>None\<close> when they return false).
\<close>

record ImageSpec =
  spec_width :: int
  spec_height :: int
  spec_nchannels :: int

record ImageInput =
  spec :: ImageSpec
  read_image :: "(nat \<Rightarrow> f32) option"

record extern =
  num_get_float :: "string \<Rightarrow> (f32 \<times> string) option"
  fadd :: "f32 \<Rightarrow> f32 \<Rightarrow> f32"
  fsub :: "f32 \<Rightarrow> f32 \<Rightarrow> f32"
  fdiv :: "f32 \<Rightarrow> f32 \<Rightarrow> f32"
  powf :: "f32 \<Rightarrow> f32 \<Rightarrow> f32"
  OIDN_USE_OPENIMAGEIO :: bool
  ImageInput_open :: "fsys \<Rightarrow> string \<Rightarrow> ImageInput option"
  ImageOutput_create :: "string \<Rightarrow> bool"
  ImageOutput_open :: "fsys \<Rightarrow> string \<Rightarrow> ImageSpec \<Rightarrow> fsys option"
  ImageOutput_write_image :: "fsys \<Rightarrow> string \<Rightarrow> f32 list \<Rightarrow> fsys option"

text \<open>\<^verbatim>\<open>file >> scale\<close> for a \<^verbatim>\<open>float\<close>.\<close>

definition istream_get_float :: "extern \<Rightarrow> istream \<Rightarrow> f32 \<times> istream" where
  "istream_get_float lib s =
     (if failbit s then (0, s)
      else case num_get_float lib (dropWhile isspace (buf s)) of
             None \<Rightarrow> (0, \<lparr>buf = dropWhile isspace (buf s), failbit = True\<rparr>)
           | Some (v, rest) \<Rightarrow> (v, \<lparr>buf = rest, failbit = False\<rparr>))"

subsection \<open>The sRGB transfer functions\<close>

text \<open>
  The float literals are their bit patterns: 0.0031308f = 0x3B4D2E1C, 12.92f = 0x414EB852,
  1.055f = 0x3F870A3D, 1.f = 0x3F800000, 2.4f = 0x4019999A, 0.055f = 0x3D6147AE,
  0.04045f = 0x3D25AEE6.
\<close>

definition srgbForward :: "extern \<Rightarrow> f32 \<Rightarrow> f32" where
  "srgbForward lib y =
     (if f32_le y 0x3B4D2E1C then f32_mul 0x414EB852 y
      else fsub lib (f32_mul 0x3F870A3D (powf lib y (fdiv lib 0x3F800000 0x4019999A))) 0x3D6147AE)"

definition srgbInverse :: "extern \<Rightarrow> f32 \<Rightarrow> f32" where
  "srgbInverse lib x =
     (if f32_le x 0x3D25AEE6 then fdiv lib x 0x414EB852
      else powf lib (fdiv lib (fadd lib x 0x3D6147AE) 0x3F870A3D) 0x4019999A)"

text \<open>The overloads on a buffer: \<^verbatim>\<open>for (int i = 0; i < image.getDataSize(); ++i) image[i] = f(image[i])\<close>.\<close>

definition srgbForward_image :: "extern \<Rightarrow> ImageBuffer \<Rightarrow> error + ImageBuffer" where
  "srgbForward_image lib img =
     fold (\<lambda>i st. bind_err st (\<lambda>im. bind_err (ImageBuffer_get im (int i))
                                   (\<lambda>x. ImageBuffer_set im (int i) (srgbForward lib x))))
          [0..<nat (getDataSize img)] (Inr img)"

definition srgbInverse_image :: "extern \<Rightarrow> ImageBuffer \<Rightarrow> error + ImageBuffer" where
  "srgbInverse_image lib img =
     fold (\<lambda>i st. bind_err st (\<lambda>im. bind_err (ImageBuffer_get im (int i))
                                   (\<lambda>x. ImageBuffer_set im (int i) (srgbInverse lib x))))
          [0..<nat (getDataSize img)] (Inr img)"

subsection \<open>File name extensions\<close>

text \<open>The characters after the last dot, in lower case; empty when there is no dot.\<close>

definition getExtension :: "string \<Rightarrow> string" where
  "getExtension filename =
     (if CHR ''.'' \<notin> set filename then []
      else map tolower (rev (takeWhile (\<lambda>c. c \<noteq> CHR ''.'') (rev filename))))"

definition isSrgbImage :: "string \<Rightarrow> bool" where
  "isSrgbImage filename =
     (let ext = getExtension filename in ext \<noteq> ''pfm'' \<and> ext \<noteq> ''exr'' \<and> ext \<noteq> ''hdr'')"

subsection \<open>PFM\<close>

text \<open>
  The body of the innermost loop of the reader, for the element index \<open>i\<close>: read a
  float, store \<open>x * scale\<close> at \<open>image[i]\<close>. When the read fails the source still stores
  \<open>x * scale\<close> for an indeterminate \<open>x\<close>; the fail bit then makes the function throw,
  so the model leaves the buffer as it is.
\<close>

definition pfm_load_sample ::
  "f32 \<Rightarrow> int \<Rightarrow> error + istream \<times> ImageBuffer \<Rightarrow> error + istream \<times> ImageBuffer" where
  "pfm_load_sample scale i st =
     bind_err st (\<lambda>(file, img).
       case istream_read_f32 file of
         (None, file') \<Rightarrow> Inr (file', img)
       | (Some x, file') \<Rightarrow>
           bind_err (ImageBuffer_set img i (f32_mul x scale)) (\<lambda>img'. Inr (file', img')))"

definition loadImagePFM :: "extern \<Rightarrow> fsys \<Rightarrow> string \<Rightarrow> error + ImageBuffer" where
  "loadImagePFM lib fs filename =
     (let file = ifstream_open fs filename in
      if failbit file then Inl (runtime_error (''cannot open image file: '' @ filename))
      else
        let (id, file) = istream_get_string file in
        if id \<noteq> ''PF'' \<and> id \<noteq> ''Pf'' then Inl (runtime_error ''invalid PFM image'')
        else
          let C = (if id = ''PF'' then 3 else 1);
              (W, file) = istream_get_int file;
              (H, file) = istream_get_int file;
              (scale, file) = istream_get_float lib file;
              file = istream_get file
          in if failbit file then Inl (runtime_error ''invalid PFM image'')
             else if f32_ge scale 0 then Inl (runtime_error ''big-endian PFM images are not supported'')
             else
               let scale = f32_abs scale in
               bind_err (ImageBuffer_new W H C) (\<lambda>img.
               bind_err
                 (fold (\<lambda>h. fold (\<lambda>w. fold (\<lambda>c.
                      pfm_load_sample scale (((H - 1 - int h) * W + int w) * C + int c))
                    [0..<nat C]) [0..<nat W]) [0..<nat H] (Inr (file, img)))
                 (\<lambda>(file, img).
                    if failbit file then Inl (runtime_error ''invalid PFM image'') else Inr img)))"

text \<open>The body of the innermost loop of the writer, for the element index \<open>i\<close>.\<close>

definition pfm_save_sample :: "ImageBuffer \<Rightarrow> int \<Rightarrow> error + string \<Rightarrow> error + string" where
  "pfm_save_sample img i st =
     bind_err st (\<lambda>file. bind_err (ImageBuffer_get img i) (\<lambda>x. Inr (file @ bytes_of_f32 x)))"

definition saveImagePFM :: "fsys \<Rightarrow> string \<Rightarrow> ImageBuffer \<Rightarrow> error + fsys" where
  "saveImagePFM fs filename img =
     (let H = height img; W = width img; C = channels img in
      if \<not> writable fs filename then Inl (runtime_error (''cannot open image file: '' @ filename))
      else
        let file = ''PF'' @ endl;
            file = file @ show_int W @ '' '' @ show_int H @ endl;
            file = file @ ''-1.0'' @ endl
        in bind_err
             (fold (\<lambda>h. fold (\<lambda>w. fold (\<lambda>c.
                  pfm_save_sample img (((H - 1 - int h) * W + int w) * C + int c))
                [0..<3]) [0..<nat W]) [0..<nat H] (Inr file))
             (\<lambda>file. Inr (fs\<lparr>files := (files fs)(filename \<mapsto> file)\<rparr>)))"

text \<open>
  What the reader makes of the header of a file with the bytes \<open>bytes\<close>: the five
  extractions of the source in their order, with the fail bit after each number.
\<close>

record pfm_header =
  hdr_id :: string
  hdr_W :: int
  hdr_W_failed :: bool
  hdr_H :: int
  hdr_H_failed :: bool
  hdr_scale :: f32
  hdr_scale_failed :: bool
  hdr_file :: istream

definition read_pfm_header :: "extern \<Rightarrow> string \<Rightarrow> pfm_header" where
  "read_pfm_header lib bytes =
     (let (id, file1) = istream_get_string \<lparr>buf = bytes, failbit = False\<rparr>;
          (W, file2) = istream_get_int file1;
          (H, file3) = istream_get_int file2;
          (scale, file4) = istream_get_float lib file3
      in \<lparr>hdr_id = id, hdr_W = W, hdr_W_failed = failbit file2,
          hdr_H = H, hdr_H_failed = failbit file3,
          hdr_scale = scale, hdr_scale_failed = failbit file4,
          hdr_file = istream_get file4\<rparr>)"


text \<open>
  The element indices that the loop nest of reader and writer visits, in the order of the
  visits: rows \<open>h\<close>, columns \<open>w\<close>, then \<open>n\<close> channels.
\<close>

definition pfm_indices :: "int \<Rightarrow> int \<Rightarrow> int \<Rightarrow> nat \<Rightarrow> int list" where
  "pfm_indices H W C n =
     concat (map (\<lambda>h. concat (map (\<lambda>w. map (\<lambda>c. ((H - 1 - int h) * W + int w) * C + int c) [0..<n])
                                    [0..<nat W]))
                 [0..<nat H])"




subsection \<open>PPM\<close>

text \<open>\<^verbatim>\<open>std::min(std::max(int(x * 255.f), 0), 255)\<close>, with 255.f = 0x437F0000.\<close>

definition ppm_save_channel ::
  "ImageBuffer \<Rightarrow> int \<Rightarrow> nat \<Rightarrow> nat \<Rightarrow> error + string \<Rightarrow> error + string" where
  "ppm_save_channel img C i c st =
     bind_err st (\<lambda>file.
       bind_err (ImageBuffer_get img (int i * C + int c))
         (\<lambda>x. case f32_to_int (f32_mul x 0x437F0000) of
                 None \<Rightarrow> Inl undefined_behaviour
               | Some v \<Rightarrow> Inr (file @ [char_of (min (max v 0) 255)])))"

definition saveImagePPM :: "fsys \<Rightarrow> string \<Rightarrow> ImageBuffer \<Rightarrow> error + fsys" where
  "saveImagePPM fs filename img =
     (if channels img \<noteq> 3 then Inl (invalid_argument ''image must have 3 channels'')
      else
        let H = height img; W = width img; C = channels img in
        if \<not> writable fs filename then Inl (runtime_error (''cannot open image file: '' @ filename))
        else
          let file = ''P6'' @ endl;
              file = file @ show_int W @ '' '' @ show_int H @ endl;
              file = file @ ''255'' @ endl
          in bind_err (fold (\<lambda>i. fold (ppm_save_channel img C i) [0..<3]) [0..<nat (W * H)] (Inr file))
               (\<lambda>file. Inr (fs\<lparr>files := (files fs)(filename \<mapsto> file)\<rparr>)))"

subsection \<open>OpenImageIO\<close>

definition loadImageOIIO :: "extern \<Rightarrow> fsys \<Rightarrow> string \<Rightarrow> error + ImageBuffer" where
  "loadImageOIIO lib fs filename =
     (case ImageInput_open lib fs filename of
        None \<Rightarrow> Inl (runtime_error (''cannot open image file: '' @ filename))
      | Some inp \<Rightarrow>
          bind_err (ImageBuffer_new (spec_width (spec inp)) (spec_height (spec inp))
                      (spec_nchannels (spec inp)))
            (\<lambda>b. case read_image inp of
                    None \<Rightarrow> Inl (runtime_error ''failed to read image data'')
                  | Some px \<Rightarrow> Inr (b\<lparr>data := map px [0..<length (data b)]\<rparr>)))"

definition saveImageOIIO :: "extern \<Rightarrow> fsys \<Rightarrow> string \<Rightarrow> ImageBuffer \<Rightarrow> error + fsys" where
  "saveImageOIIO lib fs filename img =
     (if \<not> ImageOutput_create lib filename
      then Inl (runtime_error (''cannot save unsupported image file format: '' @ filename))
      else
        case ImageOutput_open lib fs filename
               \<lparr>spec_width = width img, spec_height = height img, spec_nchannels = channels img\<rparr> of
          None \<Rightarrow> Inl (runtime_error (''cannot create image file: '' @ filename))
        | Some fs1 \<Rightarrow>
            (case ImageOutput_write_image lib fs1 filename (data img) of
               None \<Rightarrow> Inl (runtime_error ''failed to write image data'')
             | Some fs2 \<Rightarrow> Inr fs2))"

subsection \<open>Loading and saving by extension\<close>

definition loadImage :: "extern \<Rightarrow> fsys \<Rightarrow> string \<Rightarrow> error + ImageBuffer" where
  "loadImage lib fs filename =
     (let ext = getExtension filename in
      if ext = ''pfm'' then loadImagePFM lib fs filename
      else if OIDN_USE_OPENIMAGEIO lib then loadImageOIIO lib fs filename
      else Inl (runtime_error (''cannot load unsupported image file format: '' @ filename)))"

definition saveImage :: "extern \<Rightarrow> fsys \<Rightarrow> string \<Rightarrow> ImageBuffer \<Rightarrow> error + fsys" where
  "saveImage lib fs filename img =
     (let ext = getExtension filename in
      if ext = ''pfm'' then saveImagePFM fs filename img
      else if ext = ''ppm'' then saveImagePPM fs filename img
      else if OIDN_USE_OPENIMAGEIO lib then saveImageOIIO lib fs filename img
      else Inl (runtime_error (''cannot write unsupported image file format: '' @ filename)))"

text \<open>The overload \<^verbatim>\<open>loadImage(filename, srgb)\<close>.\<close>

definition loadImage_srgb :: "extern \<Rightarrow> fsys \<Rightarrow> string \<Rightarrow> bool \<Rightarrow> error + ImageBuffer" where
  "loadImage_srgb lib fs filename srgb =
     bind_err (loadImage lib fs filename)
       (\<lambda>img. if \<not> srgb \<and> isSrgbImage filename then srgbInverse_image lib img else Inr img)"

text \<open>
  The overload \<^verbatim>\<open>saveImage(filename, image, srgb)\<close> takes the image by reference. To say
  what happens to the caller's buffer, the buffers alive are a list and a reference is an
  index into it. \<^verbatim>\<open>ImageBuffer newImage = image\<close> adds a buffer with a copy of the samples,
  \<^verbatim>\<open>srgbForward(newImage)\<close> updates the buffer at that reference, and the local buffer is
  gone when the function returns or throws. The function returns the buffers alive
  afterwards and the outcome of the write.
\<close>

type_synonym heap = "ImageBuffer list"

definition srgbForward_ref :: "extern \<Rightarrow> heap \<Rightarrow> nat \<Rightarrow> error + heap" where
  "srgbForward_ref lib hp r = bind_err (srgbForward_image lib (hp ! r)) (\<lambda>b. Inr (hp[r := b]))"

definition saveImage_srgb ::
  "extern \<Rightarrow> fsys \<Rightarrow> heap \<Rightarrow> string \<Rightarrow> nat \<Rightarrow> bool \<Rightarrow> heap \<times> (error + fsys)" where
  "saveImage_srgb lib fs hp filename image_ref srgb =
     (if \<not> srgb \<and> isSrgbImage filename then
        let newImage = length hp;
            hp1 = hp @ [hp ! image_ref]
        in case srgbForward_ref lib hp1 newImage of
             Inl e \<Rightarrow> (butlast hp1, Inl e)
           | Inr hp2 \<Rightarrow> (butlast hp2, saveImage lib fs filename (hp2 ! newImage))
      else (hp, saveImage lib fs filename (hp ! image_ref)))"

subsection \<open>An example environment\<close>

text \<open>
  A library whose text-to-float conversion knows the literals \<open>-1.0\<close>, \<open>-2.0\<close> and
  \<open>1.0\<close> (the floats 0xBF800000, 0xC0000000 and 0x3F800000) and built with OpenImageIO, which opens every path as a 1x1 image of one
  channel holding 0.5. The examples below evaluate none of \<open>fadd\<close>, \<open>fsub\<close>, \<open>fdiv\<close>
  and \<open>powf\<close>.
\<close>

definition example_lib :: extern where
  "example_lib =
     \<lparr>num_get_float = (\<lambda>s. if take 4 s = ''-1.0'' then Some (0xBF800000, drop 4 s)
                            else if take 4 s = ''-2.0'' then Some (0xC0000000, drop 4 s)
                            else if take 3 s = ''1.0'' then Some (0x3F800000, drop 3 s)
                            else None),
      fadd = (\<lambda>x y. 0), fsub = (\<lambda>x y. 0), fdiv = (\<lambda>x y. 0), powf = (\<lambda>x y. 0),
      OIDN_USE_OPENIMAGEIO = True,
      ImageInput_open = (\<lambda>fs name. Some \<lparr>spec = \<lparr>spec_width = 1, spec_height = 1, spec_nchannels = 1\<rparr>,
                                             read_image = Some (\<lambda>i. 0x3F000000)\<rparr>),
      ImageOutput_create = (\<lambda>name. True),
      ImageOutput_open = (\<lambda>fs name sp. Some fs),
      ImageOutput_write_image = (\<lambda>fs name d. Some fs)\<rparr>"

definition example_fs :: "(string \<times> string) list \<Rightarrow> fsys" where
  "example_fs fl = \<lparr>files = map_of fl, writable = (\<lambda>name. True)\<rparr>"

declare bitlen.simps [simp del]
declare show_nat.simps [simp del]

section \<open>Evaluation and basic facts\<close>

lemma char_of_nat_eval:
  "char_of (n::nat) = Char (odd n) (odd (n div 2)) (odd (n div 4)) (odd (n div 8))
      (odd (n div 16)) (odd (n div 32)) (odd (n div 64)) (odd (n div 128))"
  by (simp add: char_of_def bit_iff_odd)

lemma char_of_int_eval:
  "char_of (n::int) = Char (odd n) (odd (n div 2)) (odd (n div 4)) (odd (n div 8))
      (odd (n div 16)) (odd (n div 32)) (odd (n div 64)) (odd (n div 128))"
  by (simp add: char_of_def bit_iff_odd)

lemma bind_err_simps [simp]:
  "bind_err (Inl e) f = Inl e"
  "bind_err (Inr x) f = f x"
  by (simp_all add: bind_err_def)

section \<open>The sRGB flag of loading and saving\<close>

lemma image_loop:
  "n \<le> length (data img) \<Longrightarrow>
   fold (\<lambda>i st. bind_err st (\<lambda>im. bind_err (ImageBuffer_get im (int i))
                                   (\<lambda>x. ImageBuffer_set im (int i) (f x))))
        [0..<n] (Inr img)
   = Inr (img\<lparr>data := map f (take n (data img)) @ drop n (data img)\<rparr>)"
proof (induction n)
  case 0
  then show ?case by simp
next
  case (Suc n)
  then have n: "n < length (data img)" by simp
  have upd: "(map f (take n (data img)) @ drop n (data img))[n := f (data img ! n)]
             = map f (take (Suc n) (data img)) @ drop (Suc n) (data img)"
    using n by (simp add: take_Suc_conv_app_nth list_update_append Cons_nth_drop_Suc [symmetric])
  show ?case
    using Suc n upd
    by (simp add: ImageBuffer_get_def ImageBuffer_set_def getDataSize_def nth_append)
qed

lemma srgbInverse_image_eq:
  "srgbInverse_image lib img = Inr (img\<lparr>data := map (srgbInverse lib) (data img)\<rparr>)"
  by (simp add: srgbInverse_image_def getDataSize_def image_loop)

lemma srgbForward_image_eq:
  "srgbForward_image lib img = Inr (img\<lparr>data := map (srgbForward lib) (data img)\<rparr>)"
  by (simp add: srgbForward_image_def getDataSize_def image_loop)

lemma takeWhile_not_mem: "a \<notin> set xs \<Longrightarrow> takeWhile (\<lambda>c. c \<noteq> a) xs = xs"
  by (induction xs) auto

lemma getExtension_dot:
  "CHR ''.'' \<notin> set ext \<Longrightarrow> getExtension (stem @ CHR ''.'' # ext) = map tolower ext"
  by (simp add: getExtension_def takeWhile_tail takeWhile_not_mem)

lemma getExtension_no_dot: "CHR ''.'' \<notin> set filename \<Longrightarrow> getExtension filename = []"
  by (simp add: getExtension_def)

text \<open>
  C3. Whenever \<^verbatim>\<open>loadImage(filename)\<close> loads an image, \<^verbatim>\<open>loadImage(filename, srgb)\<close>
  returns it with \<open>srgbInverse\<close> applied to every sample exactly when \<open>srgb\<close> is false and
  the extension is none of pfm, exr, hdr, and returns it unchanged otherwise. The
  extension is the text after the last dot of the file name, in lower case (empty when
  the name has no dot).
\<close>

theorem loadImage_srgb_decode:
  assumes "loadImage lib fs filename = Inr img"
  shows "loadImage_srgb lib fs filename srgb =
           Inr (if \<not> srgb \<and> getExtension filename \<notin> {''pfm'', ''exr'', ''hdr''}
                then img\<lparr>data := map (srgbInverse lib) (data img)\<rparr> else img)
         \<and> (\<forall>stem ext. filename = stem @ CHR ''.'' # ext \<and> CHR ''.'' \<notin> set ext
               \<longrightarrow> getExtension filename = map tolower ext)
         \<and> (CHR ''.'' \<notin> set filename \<longrightarrow> getExtension filename = [])"
  using assms
  by (auto simp: loadImage_srgb_def isSrgbImage_def srgbInverse_image_eq getExtension_dot
                 getExtension_no_dot Let_def)

theorem loadImage_srgb_decode_witness:
  "loadImage example_lib (example_fs []) ''a.PNG''
     = Inr \<lparr>width = 1, height = 1, channels = 1, data = [0x3F000000]\<rparr>
   \<and> loadImage_srgb example_lib (example_fs []) ''a.PNG'' False
     = Inr \<lparr>width = 1, height = 1, channels = 1, data = [srgbInverse example_lib 0x3F000000]\<rparr>
   \<and> loadImage_srgb example_lib (example_fs []) ''a.PNG'' True
     = Inr \<lparr>width = 1, height = 1, channels = 1, data = [0x3F000000]\<rparr>
   \<and> getExtension ''a.PNG'' = ''png''"
proof -
  have ext: "getExtension ''a.PNG'' = ''png''"
    by (simp add: getExtension_def tolower_def char_of_nat_eval)
  have ld: "loadImage example_lib (example_fs []) ''a.PNG''
              = Inr \<lparr>width = 1, height = 1, channels = 1, data = [0x3F000000]\<rparr>"
    by (simp add: loadImage_def ext loadImageOIIO_def example_lib_def ImageBuffer_new_def INT_MAX_def)
  show ?thesis
    using loadImage_srgb_decode [OF ld, of False] loadImage_srgb_decode [OF ld, of True] ld ext
    by simp
qed

text \<open>
  C9. \<^verbatim>\<open>saveImage(filename, image, srgb)\<close> leaves the caller's buffer, and every other
  buffer alive, as it was: what is written is the image itself, or, when \<open>srgb\<close> is false
  and the extension is that of a display format, a copy with \<open>srgbForward\<close> applied.
\<close>

theorem saveImage_srgb_frame:
  assumes "image_ref < length hp"
  shows "fst (saveImage_srgb lib fs hp filename image_ref srgb) = hp
         \<and> fst (saveImage_srgb lib fs hp filename image_ref srgb) ! image_ref = hp ! image_ref
         \<and> snd (saveImage_srgb lib fs hp filename image_ref srgb) =
             saveImage lib fs filename
               (if \<not> srgb \<and> isSrgbImage filename
                then (hp ! image_ref)\<lparr>data := map (srgbForward lib) (data (hp ! image_ref))\<rparr>
                else hp ! image_ref)"
  by (simp add: saveImage_srgb_def srgbForward_ref_def srgbForward_image_eq Let_def butlast_append)

theorem saveImage_srgb_frame_witness:
  "(0::nat) < length [\<lparr>width = 1, height = 1, channels = 3, data = [0, 0x3F000000, 0x3F800000]\<rparr>]
   \<and> fst (saveImage_srgb example_lib (example_fs [])
            [\<lparr>width = 1, height = 1, channels = 3, data = [0, 0x3F000000, 0x3F800000]\<rparr>]
            ''out.ppm'' 0 False)
       = [\<lparr>width = 1, height = 1, channels = 3, data = [0, 0x3F000000, 0x3F800000]\<rparr>]"
  using saveImage_srgb_frame [of 0 "[\<lparr>width = 1, height = 1, channels = 3, data = [0, 0x3F000000, 0x3F800000]\<rparr>]"
          example_lib "example_fs []" "''out.ppm''" False]
  by simp

section \<open>The PFM writer and images of fewer than three channels\<close>

lemmas pfm_save_eval = saveImagePFM_def pfm_save_sample_def ImageBuffer_get_def getDataSize_def
   show_int_def show_nat.simps endl_def char_of_nat_eval Let_def

text \<open>
  C8. Every index read by \<^verbatim>\<open>saveImagePFM\<close> should be inside the buffer, also for images
  of fewer than three channels. It is not: for a 1x1 image of one channel the writer reads
  \<^verbatim>\<open>image[0]\<close>, then \<^verbatim>\<open>image[1]\<close>, which is outside the one sample of the buffer.
\<close>

theorem saveImagePFM_fewer_channels_out_of_bounds:
  "saveImagePFM \<lparr>files = Map.empty, writable = (\<lambda>name. True)\<rparr> ''out.pfm''
     \<lparr>width = 1, height = 1, channels = 1, data = [0x3F000000]\<rparr> = Inl undefined_behaviour"
  by (simp add: pfm_save_eval upt_rec)

section \<open>The PFM reader on malformed input\<close>

lemma istream_get_int_sticky: "failbit s \<Longrightarrow> failbit (snd (istream_get_int s))"
  by (simp add: istream_get_int_def)

lemma istream_get_float_sticky: "failbit s \<Longrightarrow> failbit (snd (istream_get_float lib s))"
  by (simp add: istream_get_float_def)

lemma istream_get_sticky: "failbit s \<Longrightarrow> failbit (istream_get s)"
  by (simp add: istream_get_def)

lemma read_pfm_header_failed:
  assumes "hdr_W_failed (read_pfm_header lib bytes) \<or> hdr_H_failed (read_pfm_header lib bytes)
     \<or> hdr_scale_failed (read_pfm_header lib bytes)"
  shows "failbit (hdr_file (read_pfm_header lib bytes))"
proof -
  obtain id s1 where s1: "istream_get_string \<lparr>buf = bytes, failbit = False\<rparr> = (id, s1)"
    by (cases "istream_get_string \<lparr>buf = bytes, failbit = False\<rparr>")
  obtain W s2 where s2: "istream_get_int s1 = (W, s2)" by (cases "istream_get_int s1")
  obtain H s3 where s3: "istream_get_int s2 = (H, s3)" by (cases "istream_get_int s2")
  obtain sc s4 where s4: "istream_get_float lib s3 = (sc, s4)" by (cases "istream_get_float lib s3")
  have f23: "failbit s2 \<Longrightarrow> failbit s3" using istream_get_int_sticky [of s2] s3 by simp
  have f34: "failbit s3 \<Longrightarrow> failbit s4" using istream_get_float_sticky [of s3 lib] s4 by simp
  have "failbit s2 \<or> failbit s3 \<or> failbit s4"
    using assms by (simp add: read_pfm_header_def s1 s2 s3 s4)
  then have "failbit s4" using f23 f34 by blast
  then show ?thesis
    by (simp add: read_pfm_header_def s1 s2 s3 s4 istream_get_sticky)
qed

lemma fold_concat_list: "fold f (concat xss) = fold (fold f) xss"
  by (induction xss) simp_all

lemma loadImagePFM_header:
  assumes "files fs filename = Some bytes"
  shows "loadImagePFM lib fs filename =
     (let h = read_pfm_header lib bytes; C = (if hdr_id h = ''PF'' then 3 else 1) in
      if hdr_id h \<noteq> ''PF'' \<and> hdr_id h \<noteq> ''Pf'' then Inl (runtime_error ''invalid PFM image'')
      else if failbit (hdr_file h) then Inl (runtime_error ''invalid PFM image'')
      else if f32_ge (hdr_scale h) 0 then Inl (runtime_error ''big-endian PFM images are not supported'')
      else bind_err (ImageBuffer_new (hdr_W h) (hdr_H h) C) (\<lambda>img.
           bind_err (fold (pfm_load_sample (f32_abs (hdr_scale h)))
                          (pfm_indices (hdr_H h) (hdr_W h) C (nat C)) (Inr (hdr_file h, img)))
             (\<lambda>(file, img). if failbit file then Inl (runtime_error ''invalid PFM image'') else Inr img)))"
  using assms
  by (simp add: loadImagePFM_def read_pfm_header_def ifstream_open_def Let_def pfm_indices_def
                fold_concat_list fold_map comp_def split: prod.splits)

lemma loadImagePFM_cannot_open:
  "files fs filename = None \<Longrightarrow>
   loadImagePFM lib fs filename = Inl (runtime_error (''cannot open image file: '' @ filename))"
  by (simp add: loadImagePFM_def ifstream_open_def)

text \<open>
  C7. \<^verbatim>\<open>loadImagePFM\<close> throws a \<^verbatim>\<open>std::runtime_error\<close>, and returns no image, when the file
  cannot be opened, when the header id is neither PF nor Pf, when the width, the height
  or the scale cannot be read, and when the scale read is not negative.
\<close>

theorem loadImagePFM_malformed:
  assumes "files fs filename = None
           \<or> (\<exists>bytes. files fs filename = Some bytes
                \<and> ((hdr_id (read_pfm_header lib bytes) \<noteq> ''PF'' \<and> hdr_id (read_pfm_header lib bytes) \<noteq> ''Pf'')
                   \<or> hdr_W_failed (read_pfm_header lib bytes)
                   \<or> hdr_H_failed (read_pfm_header lib bytes)
                   \<or> hdr_scale_failed (read_pfm_header lib bytes)
                   \<or> f32_ge (hdr_scale (read_pfm_header lib bytes)) 0))"
  shows "loadImagePFM lib fs filename = Inl (runtime_error (''cannot open image file: '' @ filename))
         \<or> loadImagePFM lib fs filename = Inl (runtime_error ''invalid PFM image'')
         \<or> loadImagePFM lib fs filename = Inl (runtime_error ''big-endian PFM images are not supported'')"
  using assms read_pfm_header_failed [of lib]
  by (auto simp: loadImagePFM_cannot_open loadImagePFM_header Let_def)

lemmas stream_eval =
  read_pfm_header_def istream_get_string_def istream_get_int_def istream_get_float_def
  istream_get_def isspace_def isdigit_def digits_value_def INT_MIN_def INT_MAX_def Let_def
  endl_def example_lib_def example_fs_def

theorem loadImagePFM_malformed_witness:
  "loadImagePFM example_lib (example_fs []) ''a.pfm''
     = Inl (runtime_error ''cannot open image file: a.pfm'')
   \<and> loadImagePFM example_lib (example_fs [(''a.pfm'', ''P6 1 1 255 '')]) ''a.pfm''
     = Inl (runtime_error ''invalid PFM image'')
   \<and> loadImagePFM example_lib (example_fs [(''a.pfm'', ''PF x 1 -1.0 '')]) ''a.pfm''
     = Inl (runtime_error ''invalid PFM image'')
   \<and> loadImagePFM example_lib (example_fs [(''a.pfm'', ''PF 1 99999999999 -1.0 '')]) ''a.pfm''
     = Inl (runtime_error ''invalid PFM image'')
   \<and> loadImagePFM example_lib (example_fs [(''a.pfm'', ''PF 1 1 abc '')]) ''a.pfm''
     = Inl (runtime_error ''invalid PFM image'')
   \<and> loadImagePFM example_lib (example_fs [(''a.pfm'', ''PF 1 1 1.0 '')]) ''a.pfm''
     = Inl (runtime_error ''big-endian PFM images are not supported'')"
proof -
  have h1: "files (example_fs []) ''a.pfm'' = None"
    by (simp add: example_fs_def)
  have h2: "files (example_fs [(''a.pfm'', ''P6 1 1 255 '')]) ''a.pfm'' = Some ''P6 1 1 255 ''
            \<and> hdr_id (read_pfm_header example_lib ''P6 1 1 255 '') = ''P6''"
    by (simp add: stream_eval)
  have h3: "files (example_fs [(''a.pfm'', ''PF x 1 -1.0 '')]) ''a.pfm'' = Some ''PF x 1 -1.0 ''
            \<and> hdr_id (read_pfm_header example_lib ''PF x 1 -1.0 '') = ''PF''
            \<and> hdr_W_failed (read_pfm_header example_lib ''PF x 1 -1.0 '')"
    by (simp add: stream_eval)
  have h4: "files (example_fs [(''a.pfm'', ''PF 1 99999999999 -1.0 '')]) ''a.pfm''
              = Some ''PF 1 99999999999 -1.0 ''
            \<and> hdr_id (read_pfm_header example_lib ''PF 1 99999999999 -1.0 '') = ''PF''
            \<and> \<not> hdr_W_failed (read_pfm_header example_lib ''PF 1 99999999999 -1.0 '')
            \<and> hdr_H_failed (read_pfm_header example_lib ''PF 1 99999999999 -1.0 '')"
    by (simp add: stream_eval)
  have h5: "files (example_fs [(''a.pfm'', ''PF 1 1 abc '')]) ''a.pfm'' = Some ''PF 1 1 abc ''
            \<and> hdr_id (read_pfm_header example_lib ''PF 1 1 abc '') = ''PF''
            \<and> \<not> hdr_H_failed (read_pfm_header example_lib ''PF 1 1 abc '')
            \<and> hdr_scale_failed (read_pfm_header example_lib ''PF 1 1 abc '')"
    by (simp add: stream_eval)
  have h6: "files (example_fs [(''a.pfm'', ''PF 1 1 1.0 '')]) ''a.pfm'' = Some ''PF 1 1 1.0 ''
            \<and> hdr_id (read_pfm_header example_lib ''PF 1 1 1.0 '') = ''PF''
            \<and> \<not> failbit (hdr_file (read_pfm_header example_lib ''PF 1 1 1.0 ''))
            \<and> hdr_scale (read_pfm_header example_lib ''PF 1 1 1.0 '') = 0x3F800000"
    by (simp add: stream_eval)
  have ge: "f32_ge 0x3F800000 0"
    by (simp add: f32_ge_def f32_le_def f32_isnan_def f32_exponent_def f32_fraction_def
                  f32_key_def f32_sign_def f32_abs_def)
  have r1: "loadImagePFM example_lib (example_fs []) ''a.pfm''
              = Inl (runtime_error ''cannot open image file: a.pfm'')"
    using loadImagePFM_malformed [of "example_fs []" "''a.pfm''" example_lib] h1
    by (simp add: loadImagePFM_cannot_open)
  have r2: "loadImagePFM example_lib (example_fs [(''a.pfm'', ''P6 1 1 255 '')]) ''a.pfm''
              = Inl (runtime_error ''invalid PFM image'')"
    using loadImagePFM_malformed [of "example_fs [(''a.pfm'', ''P6 1 1 255 '')]" "''a.pfm''" example_lib] h2
    by (simp add: loadImagePFM_header)
  have r3: "loadImagePFM example_lib (example_fs [(''a.pfm'', ''PF x 1 -1.0 '')]) ''a.pfm''
              = Inl (runtime_error ''invalid PFM image'')"
    using loadImagePFM_malformed [of "example_fs [(''a.pfm'', ''PF x 1 -1.0 '')]" "''a.pfm''" example_lib]
          h3 read_pfm_header_failed [of example_lib "''PF x 1 -1.0 ''"]
    by (simp add: loadImagePFM_header)
  have r4: "loadImagePFM example_lib (example_fs [(''a.pfm'', ''PF 1 99999999999 -1.0 '')]) ''a.pfm''
              = Inl (runtime_error ''invalid PFM image'')"
    using loadImagePFM_malformed [of "example_fs [(''a.pfm'', ''PF 1 99999999999 -1.0 '')]" "''a.pfm''" example_lib]
          h4 read_pfm_header_failed [of example_lib "''PF 1 99999999999 -1.0 ''"]
    by (simp add: loadImagePFM_header)
  have r5: "loadImagePFM example_lib (example_fs [(''a.pfm'', ''PF 1 1 abc '')]) ''a.pfm''
              = Inl (runtime_error ''invalid PFM image'')"
    using loadImagePFM_malformed [of "example_fs [(''a.pfm'', ''PF 1 1 abc '')]" "''a.pfm''" example_lib]
          h5 read_pfm_header_failed [of example_lib "''PF 1 1 abc ''"]
    by (simp add: loadImagePFM_header)
  have r6: "loadImagePFM example_lib (example_fs [(''a.pfm'', ''PF 1 1 1.0 '')]) ''a.pfm''
              = Inl (runtime_error ''big-endian PFM images are not supported'')"
    using loadImagePFM_malformed [of "example_fs [(''a.pfm'', ''PF 1 1 1.0 '')]" "''a.pfm''" example_lib]
          h6 ge
    by (simp add: loadImagePFM_header)
  show ?thesis using r1 r2 r3 r4 r5 r6 by simp
qed

section \<open>Facts about floats\<close>














section \<open>Floats as bytes, integers as text\<close>












section \<open>The order in which the PFM loops visit the buffer\<close>












section \<open>Reading back a header that the writer wrote\<close>






section \<open>The pixel loops of the PFM reader and writer\<close>













section \<open>The PFM reader on well-formed input\<close>





section \<open>Writing a PFM file and reading it back\<close>










section \<open>Properties of the kernel catalogue\<close>


text \<open>
  C5. The list registered for generation 75 has exactly two entries; both declare
  architecture Sm75 and half precision, their threadblock tiles are 256x32x32 and 256x64x32,
  and the list is the same in every process state (it does not change after registration).
\<close>

theorem getCutlassConvInstances_75_contents:
  "map smArch (getCutlassConvInstances_75 \<sigma>) = [Sm75, Sm75]
   \<and> map elemType (getCutlassConvInstances_75 \<sigma>) = [half, half]
   \<and> map threadblockShape (getCutlassConvInstances_75 \<sigma>)
       = [\<lparr>kM = 256, kN = 32, kK = 32\<rparr>, \<lparr>kM = 256, kN = 64, kK = 32\<rparr>]
   \<and> length (getCutlassConvInstances_75 \<sigma>) = 2
   \<and> getCutlassConvInstances_75 \<sigma> = getCutlassConvInstances_75 \<sigma>'"
  by (simp add: getCutlassConvInstances_75_def CutlassConvInstance_get_def)

end
